theory Spec2Isabelle
  imports Complex_Main "HOL-Library.Multiset"
begin

section \<open>Strings\<close>

text \<open>
  A Python \<^verbatim>\<open>str\<close> is a sequence of code points. The model covers the strings whose
  code points are below 256 (Latin-1): a \<^typ>\<open>char\<close> is one code point, so
  \<^verbatim>\<open>CHR 0xE9\<close> is the letter e with acute accent. On this range \<^verbatim>\<open>str.lower()\<close>
  maps A-Z and the accented capitals 0xC0-0xDE (the multiplication sign 0xD7 apart) 32
  places up and leaves every other code point alone, and \<^verbatim>\<open>str.isspace()\<close> holds of
  the code points 9-13, 28-32, 0x85 and 0xA0.
\<close>

definition isspace :: "char \<Rightarrow> bool" where
  "isspace c =
     (let n = (of_char c :: nat)
      in (9 \<le> n \<and> n \<le> 13) \<or> (28 \<le> n \<and> n \<le> 32) \<or> n = 133 \<or> n = 160)"

definition lower_char :: "char \<Rightarrow> char" where
  "lower_char c =
     (let n = (of_char c :: nat)
      in if (65 \<le> n \<and> n \<le> 90) \<or> (192 \<le> n \<and> n \<le> 222 \<and> n \<noteq> 215)
         then char_of (n + 32) else c)"

definition lower :: "string \<Rightarrow> string" where
  "lower s = map lower_char s"

definition lstrip :: "string \<Rightarrow> string" where
  "lstrip s = dropWhile isspace s"

definition rstrip :: "string \<Rightarrow> string" where
  "rstrip s = rev (dropWhile isspace (rev s))"

definition strip :: "string \<Rightarrow> string" where
  "strip s = rstrip (lstrip s)"

section \<open>Numbers\<close>

text \<open>
  A Python \<^verbatim>\<open>float\<close> and a value of a REAL column are IEEE 754 binary64 numbers: a
  \<open>double\<close> is a finite value, an infinity or NaN. \<open>Fin x\<close> stands for the double of
  value \<open>x\<close>; the two zeros are not told apart (they compare equal, and no result below
  depends on the sign of a zero). \<open>redondear\<close> rounds a real number to the nearest double,
  ties to the even significand: with the exponent \<open>e\<close> of the number, at least -1022 and
  at most 1023, the doubles around it are the multiples of \<open>2^(e - 52)\<close>, and a
  significand that reaches \<open>2^53\<close> at the exponent 1023 is an overflow to infinity. An
  arithmetic operation on finite doubles returns its exact result rounded.
\<close>

datatype double = Fin real | PInf | NInf | NaN

text \<open>\<open>pot2 k\<close> is \<open>2^k\<close> for a natural \<open>k\<close>, and \<open>bits n\<close> the number of binary digits
  of \<open>n\<close>. The exponent of a positive number is read off the digits of its integer part, or
  of the integer part of its inverse when it is below 1, and kept between -1022 and 1023.\<close>

function pot2 :: "int \<Rightarrow> int" where
  "pot2 k = (if k \<le> 0 then 1 else 2 * pot2 (k - 1))"
  by pat_completeness auto
termination
  by (relation "measure nat") auto

function bits :: "int \<Rightarrow> int" where
  "bits n = (if n \<le> 0 then 0 else 1 + bits (n div 2))"
  by pat_completeness auto
termination
  by (relation "measure nat") auto

definition pow2 :: "int \<Rightarrow> real" where
  "pow2 k = (if 0 \<le> k then of_int (pot2 k) else 1 / of_int (pot2 (- k)))"

definition exponente :: "real \<Rightarrow> int" where
  "exponente a =
     (let e = (if 1 \<le> a then bits \<lfloor>a\<rfloor> - 1 else - bits (\<lceil>1 / a\<rceil> - 1))
      in min 1023 (max (- 1022) e))"

definition round_half_even :: "real \<Rightarrow> int" where
  "round_half_even q =
     (let f = \<lfloor>q\<rfloor>; r = q - of_int f
      in if r < 1 / 2 then f else if 1 / 2 < r then f + 1 else if even f then f else f + 1)"

definition redondear :: "real \<Rightarrow> double" where
  "redondear x =
     (if x = 0 then Fin 0
      else let a = \<bar>x\<bar>; e = exponente a; u = pow2 (e - 52); n = round_half_even (a / u)
           in if e = 1023 \<and> pot2 53 \<le> n then (if 0 < x then PInf else NInf)
              else Fin (if 0 < x then of_int n * u else - (of_int n * u)))"

datatype error =
    ValueError string
  | ValueErrorDigits nat
  | IntegrityError
  | OverflowError
  | ZeroDivisionError

fun fneg :: "double \<Rightarrow> double" where
  "fneg (Fin x) = Fin (- x)"
| "fneg PInf = NInf"
| "fneg NInf = PInf"
| "fneg NaN = NaN"

fun fadd :: "double \<Rightarrow> double \<Rightarrow> double" where
  "fadd (Fin x) (Fin y) = redondear (x + y)"
| "fadd NaN b = NaN"
| "fadd a NaN = NaN"
| "fadd PInf NInf = NaN"
| "fadd NInf PInf = NaN"
| "fadd PInf b = PInf"
| "fadd NInf b = NInf"
| "fadd a PInf = PInf"
| "fadd a NInf = NInf"

definition fsub :: "double \<Rightarrow> double \<Rightarrow> double" where
  "fsub a b = fadd a (fneg b)"



text \<open>An amount as a caller passes it: a Python \<^verbatim>\<open>int\<close>, which is unbounded, or a
  \<^verbatim>\<open>float\<close>. \<open>no_positivo\<close> is the test \<^verbatim>\<open>monto <= 0\<close>, false of NaN.\<close>

datatype numero = Entero int | Flotante double

fun no_positivo :: "numero \<Rightarrow> bool" where
  "no_positivo (Entero n) = (n \<le> 0)"
| "no_positivo (Flotante (Fin x)) = (x \<le> 0)"
| "no_positivo (Flotante NInf) = True"
| "no_positivo (Flotante PInf) = False"
| "no_positivo (Flotante NaN) = False"

text \<open>
  What the \<^verbatim>\<open>sqlite3\<close> module and a REAL column make of an amount bound to a statement.
  An \<^verbatim>\<open>int\<close> outside the 64-bit range makes the binding raise OverflowError; one
  inside is converted to the nearest double. A \<^verbatim>\<open>float\<close> is stored as it is, but NaN,
  which SQLite takes for NULL (\<open>None\<close> here).
\<close>

fun adapt_numero :: "numero \<Rightarrow> error + double option" where
  "adapt_numero (Entero n) =
     (if n < - pot2 63 \<or> pot2 63 \<le> n then Inl OverflowError
      else Inr (Some (redondear (of_int n))))"
| "adapt_numero (Flotante NaN) = Inr None"
| "adapt_numero (Flotante v) = Inr (Some v)"

section \<open>Entities (models.py)\<close>

text \<open>
  A \<^verbatim>\<open>datetime\<close> is a point on a linear time line, here a natural number (say,
  microseconds). The store keeps it as its ISO-8601 text, whose lexicographic order is the
  chronological order for the naive timestamps \<^verbatim>\<open>datetime.now()\<close> returns.
  \<^verbatim>\<open>datetime.now()\<close> itself is the argument \<open>now\<close> of every function that may read
  the clock.
\<close>

type_synonym datetime = nat

record Presupuesto =
  p_categoria :: string
  p_monto :: numero
  p_periodicidad :: string
  p_usuario_id :: "string option"
  p_id :: "nat option"
  p_creado_en :: datetime

text \<open>The dataclass constructor followed by \<^verbatim>\<open>__post_init__\<close>.\<close>

definition Presupuesto_init ::
  "datetime \<Rightarrow> string \<Rightarrow> numero \<Rightarrow> string \<Rightarrow> string option \<Rightarrow> nat option \<Rightarrow> datetime option
     \<Rightarrow> Presupuesto" where
  "Presupuesto_init now categoria monto periodicidad usuario_id ident creado_en =
     \<lparr> p_categoria = strip (lower categoria),
       p_monto = monto,
       p_periodicidad = periodicidad,
       p_usuario_id = usuario_id,
       p_id = ident,
       p_creado_en = (case creado_en of None \<Rightarrow> now | Some t \<Rightarrow> t) \<rparr>"

record Movimiento =
  m_categoria :: string
  m_tipo :: string
  m_monto :: numero
  m_usuario_id :: "string option"
  m_concepto :: "string option"
  m_fecha :: datetime
  m_id :: "nat option"

definition Movimiento_init ::
  "datetime \<Rightarrow> string \<Rightarrow> string \<Rightarrow> numero \<Rightarrow> string option \<Rightarrow> string option \<Rightarrow> datetime option
     \<Rightarrow> nat option \<Rightarrow> error + Movimiento" where
  "Movimiento_init now categoria tipo monto usuario_id concepto fecha ident =
     (if tipo \<notin> set [''gasto'', ''ingreso'']
      then Inl (ValueError (''Tipo debe ser '' @ [CHR 0x27] @ ''gasto'' @ [CHR 0x27] @ '' o ''
                              @ [CHR 0x27] @ ''ingreso'' @ [CHR 0x27]))
      else Inr \<lparr> m_categoria = strip (lower categoria),
                 m_tipo = tipo,
                 m_monto = monto,
                 m_usuario_id = usuario_id,
                 m_concepto = concepto,
                 m_fecha = (case fecha of None \<Rightarrow> now | Some t \<Rightarrow> t),
                 m_id = ident \<rparr>)"

text \<open>The fields of a summary hold the floats read from the store. The integer 0 that
  \<^verbatim>\<open>COALESCE\<close> returns for an empty sum is written \<open>Fin 0\<close>: it equals 0.0 and enters
  the float arithmetic as 0.0.\<close>

record ResumenPresupuesto =
  r_categoria :: string
  r_monto_inicial :: double
  r_gastos :: double
  r_ingresos :: double
  r_saldo :: double
  r_periodicidad :: string


section \<open>The SQLite store (database.py)\<close>

text \<open>
  The two tables are lists of rows in rowid order. \<open>seq_presupuestos\<close> and
  \<open>seq_movimientos\<close> are the AUTOINCREMENT counters. A violated NOT NULL, UNIQUE or CHECK
  constraint raises \<open>IntegrityError\<close>, and the binding of the parameters of a statement
  comes before its execution. A call that raises returns no store: the transaction is not
  committed and the store stays as it was. Failures of the storage medium are outside the
  model.
\<close>

record presupuesto_row =
  pr_id :: nat
  pr_usuario_id :: string
  pr_categoria :: string
  pr_monto :: double
  pr_periodicidad :: string
  pr_creado_en :: datetime

record movimiento_row =
  mv_id :: nat
  mv_usuario_id :: string
  mv_categoria :: string
  mv_tipo :: string
  mv_monto :: double
  mv_concepto :: "string option"
  mv_fecha :: datetime

record db =
  presupuestos :: "presupuesto_row list"
  movimientos :: "movimiento_row list"
  seq_presupuestos :: nat
  seq_movimientos :: nat

definition init_db :: db where
  "init_db = \<lparr> presupuestos = [], movimientos = [], seq_presupuestos = 0, seq_movimientos = 0 \<rparr>"

text \<open>\<^verbatim>\<open>SELECT 1 FROM presupuestos WHERE usuario_id = ? AND categoria = ?\<close>, the category
  lowercased and stripped; \<^verbatim>\<open>fetchone() is not None\<close>.\<close>

definition SQLiteRepository_presupuesto_existe :: "db \<Rightarrow> string \<Rightarrow> string \<Rightarrow> bool" where
  "SQLiteRepository_presupuesto_existe d usuario_id categoria =
     (filter (\<lambda>r. pr_usuario_id r = usuario_id \<and> pr_categoria r = strip (lower categoria))
        (presupuestos d) \<noteq> [])"

text \<open>The INSERT of \<^verbatim>\<open>crear_presupuesto\<close> with the table's constraints.\<close>

definition insert_presupuesto :: "db \<Rightarrow> Presupuesto \<Rightarrow> error + db" where
  "insert_presupuesto d p =
     (case adapt_numero (p_monto p) of
        Inl e \<Rightarrow> Inl e
      | Inr None \<Rightarrow> Inl IntegrityError
      | Inr (Some monto) \<Rightarrow>
          (case p_usuario_id p of
             None \<Rightarrow> Inl IntegrityError
           | Some u \<Rightarrow>
               if filter (\<lambda>r. pr_usuario_id r = u \<and> pr_categoria r = p_categoria p)
                    (presupuestos d) \<noteq> []
               then Inl IntegrityError
               else Inr (d\<lparr> presupuestos := presupuestos d @
                               [\<lparr> pr_id = Suc (seq_presupuestos d),
                                  pr_usuario_id = u,
                                  pr_categoria = p_categoria p,
                                  pr_monto = monto,
                                  pr_periodicidad = p_periodicidad p,
                                  pr_creado_en = p_creado_en p \<rparr>],
                             seq_presupuestos := Suc (seq_presupuestos d) \<rparr>)))"

text \<open>With \<^verbatim>\<open>usuario_id = None\<close> the existence query compares with NULL and finds no row,
  so the INSERT runs and fails.\<close>

definition SQLiteRepository_crear_presupuesto :: "db \<Rightarrow> Presupuesto \<Rightarrow> error + (bool \<times> db)" where
  "SQLiteRepository_crear_presupuesto d presupuesto =
     (if (case p_usuario_id presupuesto of
            None \<Rightarrow> False
          | Some u \<Rightarrow> SQLiteRepository_presupuesto_existe d u (p_categoria presupuesto))
      then Inr (False, d)
      else (case insert_presupuesto d presupuesto of
              Inl e \<Rightarrow> Inl e
            | Inr d' \<Rightarrow> Inr (True, d')))"

text \<open>The two UPDATE statements compare the stored category with the argument as it was
  passed. \<^verbatim>\<open>if periodicidad:\<close> is false for \<^verbatim>\<open>None\<close> and for the empty string. An
  amount that SQLite takes for NULL violates NOT NULL in the rows the statement changes, so
  only when there is one.\<close>

definition SQLiteRepository_actualizar_presupuesto ::
  "db \<Rightarrow> string \<Rightarrow> string \<Rightarrow> numero \<Rightarrow> string option \<Rightarrow> error + (bool \<times> db)" where
  "SQLiteRepository_actualizar_presupuesto d usuario_id categoria monto periodicidad =
     (if \<not> SQLiteRepository_presupuesto_existe d usuario_id categoria then Inr (False, d)
      else
        (case adapt_numero monto of
           Inl e \<Rightarrow> Inl e
         | Inr None \<Rightarrow>
             if filter (\<lambda>r. pr_usuario_id r = usuario_id \<and> pr_categoria r = categoria)
                  (presupuestos d) \<noteq> []
             then Inl IntegrityError else Inr (True, d)
         | Inr (Some x) \<Rightarrow>
             if periodicidad \<noteq> None \<and> periodicidad \<noteq> Some []
             then Inr (True, d\<lparr> presupuestos :=
                     map (\<lambda>r. if pr_usuario_id r = usuario_id \<and> pr_categoria r = categoria
                               then r\<lparr> pr_monto := x, pr_periodicidad := the periodicidad \<rparr>
                               else r)
                         (presupuestos d) \<rparr>)
             else Inr (True, d\<lparr> presupuestos :=
                     map (\<lambda>r. if pr_usuario_id r = usuario_id \<and> pr_categoria r = categoria
                               then r\<lparr> pr_monto := x \<rparr> else r)
                         (presupuestos d) \<rparr>)))"

text \<open>Both DELETE statements run in one transaction, committed once.\<close>

definition SQLiteRepository_eliminar_presupuesto :: "db \<Rightarrow> string \<Rightarrow> string \<Rightarrow> bool \<times> db" where
  "SQLiteRepository_eliminar_presupuesto d usuario_id categoria =
     (if \<not> SQLiteRepository_presupuesto_existe d usuario_id categoria then (False, d)
      else (True, d\<lparr> presupuestos :=
                       filter (\<lambda>r. \<not> (pr_usuario_id r = usuario_id \<and> pr_categoria r = categoria))
                         (presupuestos d),
                     movimientos :=
                       filter (\<lambda>r. \<not> (mv_usuario_id r = usuario_id \<and> mv_categoria r = categoria))
                         (movimientos d) \<rparr>))"

definition SQLiteRepository_registrar_movimiento :: "db \<Rightarrow> Movimiento \<Rightarrow> error + (bool \<times> db)" where
  "SQLiteRepository_registrar_movimiento d movimiento =
     (case adapt_numero (m_monto movimiento) of
        Inl e \<Rightarrow> Inl e
      | Inr None \<Rightarrow> Inl IntegrityError
      | Inr (Some monto) \<Rightarrow>
          (case m_usuario_id movimiento of
             None \<Rightarrow> Inl IntegrityError
           | Some u \<Rightarrow>
               if m_tipo movimiento \<notin> set [''gasto'', ''ingreso''] then Inl IntegrityError
               else Inr (True,
                      d\<lparr> movimientos := movimientos d @
                            [\<lparr> mv_id = Suc (seq_movimientos d),
                               mv_usuario_id = u,
                               mv_categoria = m_categoria movimiento,
                               mv_tipo = m_tipo movimiento,
                               mv_monto = monto,
                               mv_concepto = m_concepto movimiento,
                               mv_fecha = m_fecha movimiento \<rparr>],
                          seq_movimientos := Suc (seq_movimientos d) \<rparr>)))"

text \<open>\<^verbatim>\<open>ORDER BY fecha DESC\<close>: a stable insertion sort, latest first (SQL leaves the order
  of rows with equal \<open>fecha\<close> open).\<close>

fun insert_desc :: "movimiento_row \<Rightarrow> movimiento_row list \<Rightarrow> movimiento_row list" where
  "insert_desc x [] = [x]"
| "insert_desc x (y # ys) =
     (if mv_fecha y \<le> mv_fecha x then x # y # ys else y # insert_desc x ys)"

fun order_by_fecha_desc :: "movimiento_row list \<Rightarrow> movimiento_row list" where
  "order_by_fecha_desc [] = []"
| "order_by_fecha_desc (x # xs) = insert_desc x (order_by_fecha_desc xs)"

text \<open>The loop over \<^verbatim>\<open>cur.fetchall()\<close>: each row becomes a \<^verbatim>\<open>Movimiento\<close>, built by
  the constructor from the category argument and the row's other columns; the first
  constructor error ends the loop.\<close>

fun construir_movimientos ::
  "datetime \<Rightarrow> string \<Rightarrow> string \<Rightarrow> movimiento_row list \<Rightarrow> error + Movimiento list" where
  "construir_movimientos now usuario_id categoria [] = Inr []"
| "construir_movimientos now usuario_id categoria (row # rows) =
     (case Movimiento_init now categoria (mv_tipo row) (Flotante (mv_monto row)) (Some usuario_id)
             (mv_concepto row) (Some (mv_fecha row)) (Some (mv_id row)) of
        Inl e \<Rightarrow> Inl e
      | Inr movimiento \<Rightarrow>
          (case construir_movimientos now usuario_id categoria rows of
             Inl e \<Rightarrow> Inl e
           | Inr resto \<Rightarrow> Inr (movimiento # resto)))"

definition SQLiteRepository_obtener_historial :: "datetime \<Rightarrow> db \<Rightarrow> string \<Rightarrow> string \<Rightarrow> error + Movimiento list" where
  "SQLiteRepository_obtener_historial now d usuario_id categoria =
     construir_movimientos now usuario_id categoria
       (order_by_fecha_desc
          (filter (\<lambda>r. mv_usuario_id r = usuario_id \<and> mv_categoria r = strip (lower categoria))
             (movimientos d)))"

text \<open>
  The aggregate \<^verbatim>\<open>SUM\<close> over the values of a REAL column is computed by the SQLite
  library, whose summation differs between versions; it is the parameter \<open>suma\<close> of the
  summary, a function from the values, in the order of the rows, to a double. \<^verbatim>\<open>SUM\<close>
  is NULL over no rows, a NaN result is NULL as well, and \<^verbatim>\<open>COALESCE(x, 0)\<close> replaces
  NULL by 0.
\<close>

definition sql_sum :: "(double list \<Rightarrow> double) \<Rightarrow> double list \<Rightarrow> double option" where
  "sql_sum suma xs =
     (if xs = [] then None else (case suma xs of NaN \<Rightarrow> None | v \<Rightarrow> Some v))"

definition coalesce :: "double option \<Rightarrow> double \<Rightarrow> double" where
  "coalesce v dflt = (case v of None \<Rightarrow> dflt | Some x \<Rightarrow> x)"




definition suma_movimientos ::
  "(double list \<Rightarrow> double) \<Rightarrow> db \<Rightarrow> string \<Rightarrow> string \<Rightarrow> string \<Rightarrow> double" where
  "suma_movimientos suma d usuario_id categoria tipo =
     coalesce (sql_sum suma (map mv_monto
        (filter (\<lambda>r. mv_usuario_id r = usuario_id \<and> mv_categoria r = categoria \<and> mv_tipo r = tipo)
           (movimientos d)))) (Fin 0)"

text \<open>The body of the loop of \<^verbatim>\<open>obtener_resumen\<close>, for one budget row.\<close>

definition resumen_de ::
  "(double list \<Rightarrow> double) \<Rightarrow> db \<Rightarrow> string \<Rightarrow> presupuesto_row \<Rightarrow> ResumenPresupuesto" where
  "resumen_de suma d usuario_id row =
     (let categoria = pr_categoria row; monto = pr_monto row; periodicidad = pr_periodicidad row;
          gastos = suma_movimientos suma d usuario_id categoria ''gasto'';
          ingresos = suma_movimientos suma d usuario_id categoria ''ingreso'';
          saldo = fsub (fadd monto ingresos) gastos
      in \<lparr> r_categoria = categoria, r_monto_inicial = monto, r_gastos = gastos,
           r_ingresos = ingresos, r_saldo = saldo, r_periodicidad = periodicidad \<rparr>)"

definition SQLiteRepository_obtener_resumen ::
  "(double list \<Rightarrow> double) \<Rightarrow> db \<Rightarrow> string \<Rightarrow> ResumenPresupuesto list" where
  "SQLiteRepository_obtener_resumen suma d usuario_id =
     map (resumen_de suma d usuario_id)
       (filter (\<lambda>r. pr_usuario_id r = usuario_id) (presupuestos d))"

section \<open>Services and facade (services.py)\<close>

text \<open>
  A service returns a pair of a success flag and a message and changes the store; the model
  returns the store as well. A message is its text, but for the one message whose text
  holds a symbol beyond Latin-1 and a formatted float: the f-string of a recorded
  movement, kept as \<open>MovimientoRegistrado accion monto categoria concepto\<close>.
\<close>

datatype mensaje = Texto string | MovimientoRegistrado string numero string string

definition comillas :: "string \<Rightarrow> string" where
  "comillas s = [CHR 0x27] @ s @ [CHR 0x27]"

definition msg_categoria_vacia :: string where
  "msg_categoria_vacia =
     ''La categor'' @ [CHR 0xED] @ ''a no puede estar vac'' @ [CHR 0xED] @ ''a''"

definition msg_monto :: string where
  "msg_monto = ''El monto debe ser mayor a 0''"

definition msg_periodicidad :: string where
  "msg_periodicidad = ''Periodicidad debe ser: diario, semanal, mensual, anual''"

definition periodicidades :: "string list" where
  "periodicidades = [''diario'', ''semanal'', ''mensual'', ''anual'']"

definition PresupuestoService_crear_presupuesto ::
  "datetime \<Rightarrow> db \<Rightarrow> string \<Rightarrow> string \<Rightarrow> numero \<Rightarrow> string \<Rightarrow> error + ((bool \<times> mensaje) \<times> db)" where
  "PresupuestoService_crear_presupuesto now d usuario_id categoria monto periodicidad =
     (if strip categoria = [] then Inr ((False, Texto msg_categoria_vacia), d)
      else if no_positivo monto then Inr ((False, Texto msg_monto), d)
      else if lower periodicidad \<notin> set periodicidades
      then Inr ((False, Texto msg_periodicidad), d)
      else
        (let presupuesto =
               Presupuesto_init now categoria monto (lower periodicidad) (Some usuario_id) None None
         in case SQLiteRepository_crear_presupuesto d presupuesto of
              Inl e \<Rightarrow> Inl e
            | Inr (success, d') \<Rightarrow>
                if success
                then Inr ((True, Texto (''Presupuesto '' @ comillas categoria @ '' creado exitosamente'')), d')
                else Inr ((False, Texto (''Ya existe un presupuesto para '' @ comillas categoria)), d')))"

definition PresupuestoService_actualizar_presupuesto ::
  "db \<Rightarrow> string \<Rightarrow> string \<Rightarrow> numero \<Rightarrow> string option \<Rightarrow> error + ((bool \<times> mensaje) \<times> db)" where
  "PresupuestoService_actualizar_presupuesto d usuario_id categoria monto periodicidad =
     (if no_positivo monto then Inr ((False, Texto msg_monto), d)
      else if periodicidad \<noteq> None \<and> periodicidad \<noteq> Some []
              \<and> lower (the periodicidad) \<notin> set periodicidades
      then Inr ((False, Texto msg_periodicidad), d)
      else
        (case SQLiteRepository_actualizar_presupuesto d usuario_id categoria monto periodicidad of
           Inl e \<Rightarrow> Inl e
         | Inr (success, d') \<Rightarrow>
             if success
             then Inr ((True, Texto (''Presupuesto '' @ comillas categoria
                                      @ '' actualizado exitosamente'')), d')
             else Inr ((False, Texto (''No existe presupuesto '' @ comillas categoria)), d')))"

definition PresupuestoService_eliminar_presupuesto ::
  "db \<Rightarrow> string \<Rightarrow> string \<Rightarrow> (bool \<times> mensaje) \<times> db" where
  "PresupuestoService_eliminar_presupuesto d usuario_id categoria =
     (case SQLiteRepository_eliminar_presupuesto d usuario_id categoria of
        (success, d') \<Rightarrow>
          if success
          then ((True, Texto (''Presupuesto '' @ comillas categoria @ '' eliminado exitosamente'')), d')
          else ((False, Texto (''No existe presupuesto '' @ comillas categoria)), d'))"

definition PresupuestoService_obtener_resumen ::
  "(double list \<Rightarrow> double) \<Rightarrow> db \<Rightarrow> string \<Rightarrow> ResumenPresupuesto list" where
  "PresupuestoService_obtener_resumen suma d usuario_id =
     SQLiteRepository_obtener_resumen suma d usuario_id"

definition PresupuestoService_presupuesto_existe :: "db \<Rightarrow> string \<Rightarrow> string \<Rightarrow> bool" where
  "PresupuestoService_presupuesto_existe d usuario_id categoria =
     SQLiteRepository_presupuesto_existe d usuario_id categoria"

text \<open>\<^verbatim>\<open>MovimientoService._registrar_movimiento\<close>. The \<^verbatim>\<open>try\<close> block holds the
  constructor and the repository call; \<^verbatim>\<open>except ValueError\<close> turns that error into a
  message and lets any other error pass.\<close>

definition msg_crear_primero :: "string \<Rightarrow> string" where
  "msg_crear_primero categoria =
     ''No existe presupuesto '' @ comillas categoria @ ''. Cr'' @ [CHR 0xE9]
       @ ''alo primero con /crear''"

definition MovimientoService_registrar_movimiento ::
  "datetime \<Rightarrow> db \<Rightarrow> string \<Rightarrow> string \<Rightarrow> string \<Rightarrow> numero \<Rightarrow> string
     \<Rightarrow> error + ((bool \<times> mensaje) \<times> db)" where
  "MovimientoService_registrar_movimiento now d usuario_id categoria tipo monto concepto =
     (if \<not> PresupuestoService_presupuesto_existe d usuario_id categoria
      then Inr ((False, Texto (msg_crear_primero categoria)), d)
      else if no_positivo monto then Inr ((False, Texto msg_monto), d)
      else
        (case (case Movimiento_init now categoria tipo monto (Some usuario_id) (Some concepto)
                      None None of
                 Inl e \<Rightarrow> Inl e
               | Inr movimiento \<Rightarrow> SQLiteRepository_registrar_movimiento d movimiento) of
           Inl (ValueError e) \<Rightarrow> Inr ((False, Texto e), d)
         | Inl e \<Rightarrow> Inl e
         | Inr (success, d') \<Rightarrow>
             if success
             then Inr ((True, MovimientoRegistrado
                          (if tipo = ''gasto'' then ''Gasto registrado'' else ''Ingreso registrado'')
                          monto categoria concepto), d')
             else Inr ((False, Texto ''Error al registrar el movimiento''), d')))"

definition MovimientoService_registrar_gasto ::
  "datetime \<Rightarrow> db \<Rightarrow> string \<Rightarrow> string \<Rightarrow> numero \<Rightarrow> string \<Rightarrow> error + ((bool \<times> mensaje) \<times> db)" where
  "MovimientoService_registrar_gasto now d usuario_id categoria monto concepto =
     MovimientoService_registrar_movimiento now d usuario_id categoria ''gasto'' monto concepto"

definition MovimientoService_registrar_ingreso ::
  "datetime \<Rightarrow> db \<Rightarrow> string \<Rightarrow> string \<Rightarrow> numero \<Rightarrow> string \<Rightarrow> error + ((bool \<times> mensaje) \<times> db)" where
  "MovimientoService_registrar_ingreso now d usuario_id categoria monto concepto =
     MovimientoService_registrar_movimiento now d usuario_id categoria ''ingreso'' monto concepto"

definition MovimientoService_obtener_historial ::
  "datetime \<Rightarrow> db \<Rightarrow> string \<Rightarrow> string \<Rightarrow> error + (bool \<times> mensaje \<times> Movimiento list)" where
  "MovimientoService_obtener_historial now d usuario_id categoria =
     (if \<not> PresupuestoService_presupuesto_existe d usuario_id categoria
      then Inr (False, Texto (''No existe presupuesto '' @ comillas categoria), [])
      else
        (case SQLiteRepository_obtener_historial now d usuario_id categoria of
           Inl e \<Rightarrow> Inl e
         | Inr ms \<Rightarrow>
             if ms = []
             then Inr (False, Texto (''No hay movimientos registrados para '' @ comillas categoria), [])
             else Inr (True, Texto ''Historial obtenido exitosamente'', ms)))"

text \<open>\<^verbatim>\<open>MonevoFacade\<close> passes every call on to its service.\<close>

definition MonevoFacade_crear_presupuesto ::
  "datetime \<Rightarrow> db \<Rightarrow> string \<Rightarrow> string \<Rightarrow> numero \<Rightarrow> string \<Rightarrow> error + ((bool \<times> mensaje) \<times> db)" where
  "MonevoFacade_crear_presupuesto = PresupuestoService_crear_presupuesto"

definition MonevoFacade_actualizar_presupuesto ::
  "db \<Rightarrow> string \<Rightarrow> string \<Rightarrow> numero \<Rightarrow> string option \<Rightarrow> error + ((bool \<times> mensaje) \<times> db)" where
  "MonevoFacade_actualizar_presupuesto = PresupuestoService_actualizar_presupuesto"

definition MonevoFacade_eliminar_presupuesto ::
  "db \<Rightarrow> string \<Rightarrow> string \<Rightarrow> (bool \<times> mensaje) \<times> db" where
  "MonevoFacade_eliminar_presupuesto = PresupuestoService_eliminar_presupuesto"

definition MonevoFacade_obtener_resumen ::
  "(double list \<Rightarrow> double) \<Rightarrow> db \<Rightarrow> string \<Rightarrow> ResumenPresupuesto list" where
  "MonevoFacade_obtener_resumen = PresupuestoService_obtener_resumen"

definition MonevoFacade_registrar_gasto ::
  "datetime \<Rightarrow> db \<Rightarrow> string \<Rightarrow> string \<Rightarrow> numero \<Rightarrow> string \<Rightarrow> error + ((bool \<times> mensaje) \<times> db)" where
  "MonevoFacade_registrar_gasto = MovimientoService_registrar_gasto"

definition MonevoFacade_registrar_ingreso ::
  "datetime \<Rightarrow> db \<Rightarrow> string \<Rightarrow> string \<Rightarrow> numero \<Rightarrow> string \<Rightarrow> error + ((bool \<times> mensaje) \<times> db)" where
  "MonevoFacade_registrar_ingreso = MovimientoService_registrar_ingreso"

definition MonevoFacade_obtener_historial ::
  "datetime \<Rightarrow> db \<Rightarrow> string \<Rightarrow> string \<Rightarrow> error + (bool \<times> mensaje \<times> Movimiento list)" where
  "MonevoFacade_obtener_historial = MovimientoService_obtener_historial"

definition MonevoFacade_presupuesto_existe :: "db \<Rightarrow> string \<Rightarrow> string \<Rightarrow> bool" where
  "MonevoFacade_presupuesto_existe = PresupuestoService_presupuesto_existe"

section \<open>Intent parser (message_parser.py)\<close>

text \<open>
  The three patterns are written in the fragment of Python's regular expressions they use:
  literal characters (compared case-insensitively, as \<^verbatim>\<open>re.IGNORECASE\<close> asks), the
  classes \<^verbatim>\<open>\s\<close>, \<^verbatim>\<open>\d\<close>, \<^verbatim>\<open>\w\<close> and \<^verbatim>\<open>.\<close>, sequence, alternation, the
  greedy \<^verbatim>\<open>+\<close> of a class, the greedy \<^verbatim>\<open>?\<close> and numbered groups. \<open>rmatch\<close> is the
  backtracking matcher: it lists every way the expression matches a prefix of the input, in
  the order the backtracking engine tries them, as the rest of the input and the groups
  captured so far. The head of the list is the match Python reports.
\<close>

datatype cls = Cls_s | Cls_d | Cls_w | Cls_dot

definition in_cls :: "cls \<Rightarrow> char \<Rightarrow> bool" where
  "in_cls k c =
     (let n = (of_char c :: nat)
      in case k of
           Cls_s \<Rightarrow> isspace c
         | Cls_d \<Rightarrow> 48 \<le> n \<and> n \<le> 57
         | Cls_w \<Rightarrow> (48 \<le> n \<and> n \<le> 57) \<or> (65 \<le> n \<and> n \<le> 90) \<or> n = 95 \<or> (97 \<le> n \<and> n \<le> 122)
                    \<or> n = 170 \<or> n = 178 \<or> n = 179 \<or> n = 181 \<or> n = 185 \<or> n = 186
                    \<or> (188 \<le> n \<and> n \<le> 190) \<or> (192 \<le> n \<and> n \<le> 214)
                    \<or> (216 \<le> n \<and> n \<le> 246) \<or> 248 \<le> n
         | Cls_dot \<Rightarrow> n \<noteq> 10)"

datatype rx =
    Eps
  | Lit char
  | Seq rx rx
  | Alt rx rx
  | Plus cls
  | Opt rx
  | Grp nat rx

type_synonym groups = "(nat \<times> string) list"

fun plus_rests :: "cls \<Rightarrow> string \<Rightarrow> string list" where
  "plus_rests k [] = []"
| "plus_rests k (x # xs) = (if in_cls k x then plus_rests k xs @ [xs] else [])"

fun rmatch :: "rx \<Rightarrow> string \<times> groups \<Rightarrow> (string \<times> groups) list" where
  "rmatch Eps st = [st]"
| "rmatch (Lit c) (s, g) =
     (case s of
        [] \<Rightarrow> []
      | x # xs \<Rightarrow> if lower_char x = lower_char c then [(xs, g)] else [])"
| "rmatch (Seq a b) st = concat (map (rmatch b) (rmatch a st))"
| "rmatch (Alt a b) st = rmatch a st @ rmatch b st"
| "rmatch (Plus k) (s, g) = map (\<lambda>r. (r, g)) (plus_rests k s)"
| "rmatch (Opt a) st = rmatch a st @ [st]"
| "rmatch (Grp n a) (s, g) =
     map (\<lambda>(r, g'). (r, (n, take (length s - length r) s) # g')) (rmatch a (s, g))"

text \<open>\<^verbatim>\<open>pattern.search\<close>: the first match at the leftmost position that has one.\<close>

fun search :: "rx \<Rightarrow> string \<Rightarrow> groups option" where
  "search r [] = (case rmatch r ([], []) of [] \<Rightarrow> None | (rest, g) # others \<Rightarrow> Some g)"
| "search r (x # xs) =
     (case rmatch r (x # xs, []) of [] \<Rightarrow> search r xs | (rest, g) # others \<Rightarrow> Some g)"

text \<open>\<^verbatim>\<open>match.group(n)\<close>: \<open>None\<close> for a group that took no part in the match.\<close>

definition group :: "groups \<Rightarrow> nat \<Rightarrow> string option" where
  "group g n = map_of g n"

fun lits :: "string \<Rightarrow> rx" where
  "lits [] = Eps"
| "lits (c # cs) = Seq (Lit c) (lits cs)"

fun seqs :: "rx list \<Rightarrow> rx" where
  "seqs [] = Eps"
| "seqs (r # rs) = Seq r (seqs rs)"

text \<open>\<^verbatim>\<open>(\s+por\s+(.+))?\<close>, the tail the first two patterns share.\<close>

definition por_concepto :: rx where
  "por_concepto =
     Opt (Grp 5 (seqs [Plus Cls_s, lits ''por'', Plus Cls_s, Grp 6 (Plus Cls_dot)]))"

text \<open>\<^verbatim>\<open>(gast[\xe9e]|saqu\xe9)\s+(\d+)\s+(de)\s+(\w+)(\s+por\s+(.+))?\<close>, the source's accented
  letters written as their code points.\<close>

definition GastoPattern_pattern :: rx where
  "GastoPattern_pattern =
     seqs [Grp 1 (Alt (Seq (lits ''gast'') (Alt (Lit (CHR 0xE9)) (Lit CHR ''e'')))
                      (lits (''saqu'' @ [CHR 0xE9]))),
           Plus Cls_s, Grp 2 (Plus Cls_d), Plus Cls_s, Grp 3 (lits ''de''), Plus Cls_s,
           Grp 4 (Plus Cls_w), por_concepto]"

text \<open>\<^verbatim>\<open>(a\xf1ad[\xedi]|agregu[\xe9e]|sum[\xe9e])\s+(\d+)\s+(a)\s+(\w+)(\s+por\s+(.+))?\<close>.\<close>

definition IngresoPattern_pattern :: rx where
  "IngresoPattern_pattern =
     seqs [Grp 1 (Alt (Seq (lits ([CHR ''a'', CHR 0xF1] @ ''ad''))
                           (Alt (Lit (CHR 0xED)) (Lit CHR ''i'')))
                 (Alt (Seq (lits ''agregu'') (Alt (Lit (CHR 0xE9)) (Lit CHR ''e'')))
                      (Seq (lits ''sum'') (Alt (Lit (CHR 0xE9)) (Lit CHR ''e''))))),
           Plus Cls_s, Grp 2 (Plus Cls_d), Plus Cls_s, Grp 3 (lits ''a''), Plus Cls_s,
           Grp 4 (Plus Cls_w), por_concepto]"

text \<open>\<^verbatim>\<open>ver\s+(presupuesto\s+)?(\w+)\<close>.\<close>

definition VerPresupuestoPattern_pattern :: rx where
  "VerPresupuestoPattern_pattern =
     seqs [lits ''ver'', Plus Cls_s, Opt (Grp 1 (Seq (lits ''presupuesto'') (Plus Cls_s))),
           Grp 2 (Plus Cls_w)]"

text \<open>\<^verbatim>\<open>int(s)\<close> on a string of decimal digits, which is all \<^verbatim>\<open>\d+\<close> captures. Beyond
  4300 digits, the default limit of the interpreter, \<^verbatim>\<open>int\<close> raises the ValueError that
  names the number of digits, here \<open>ValueErrorDigits\<close>.\<close>

definition py_int :: "string \<Rightarrow> error + int" where
  "py_int s =
     (if 4300 < int (length s) then Inl (ValueErrorDigits (length s))
      else Inr (foldl (\<lambda>a c. 10 * a + (int (of_char c) - 48)) 0 s))"

datatype valor = VInt int | VStr string

type_synonym dict = "(string \<times> valor) list"

datatype MessagePattern = GastoPattern | IngresoPattern | VerPresupuestoPattern

definition pattern_of :: "MessagePattern \<Rightarrow> rx" where
  "pattern_of p =
     (case p of
        GastoPattern \<Rightarrow> GastoPattern_pattern
      | IngresoPattern \<Rightarrow> IngresoPattern_pattern
      | VerPresupuestoPattern \<Rightarrow> VerPresupuestoPattern_pattern)"

definition can_handle :: "MessagePattern \<Rightarrow> string \<Rightarrow> bool" where
  "can_handle p mensaje = (search (pattern_of p) mensaje \<noteq> None)"

text \<open>\<^verbatim>\<open>match.group(6).strip() if match.group(6) else ""\<close>.\<close>

definition concepto_of :: "groups \<Rightarrow> string" where
  "concepto_of g =
     (case group g 6 of None \<Rightarrow> [] | Some c \<Rightarrow> if c \<noteq> [] then strip c else [])"

text \<open>Groups 2 and 4 (for the view pattern group 2) take part in every match; \<open>the\<close> reads
  them.\<close>

definition extract_data :: "MessagePattern \<Rightarrow> string \<Rightarrow> error + dict option" where
  "extract_data p mensaje =
     (case search (pattern_of p) mensaje of
        None \<Rightarrow> Inr None
      | Some g \<Rightarrow>
          (case p of
             VerPresupuestoPattern \<Rightarrow>
               Inr (Some [(''categoria'', VStr (strip (lower (the (group g 2)))))])
           | _ \<Rightarrow>
               (case py_int (the (group g 2)) of
                  Inl e \<Rightarrow> Inl e
                | Inr monto \<Rightarrow>
                    Inr (Some [(''monto'', VInt monto),
                               (''categoria'', VStr (strip (lower (the (group g 4))))),
                               (''concepto'', VStr (concepto_of g))]))))"

definition get_action :: "MessagePattern \<Rightarrow> string" where
  "get_action p =
     (case p of
        GastoPattern \<Rightarrow> ''gasto''
      | IngresoPattern \<Rightarrow> ''ingreso''
      | VerPresupuestoPattern \<Rightarrow> ''ver_presupuesto'')"

definition patterns :: "MessagePattern list" where
  "patterns = [GastoPattern, IngresoPattern, VerPresupuestoPattern]"

text \<open>The loop of \<^verbatim>\<open>MessageParser.parse\<close>; \<^verbatim>\<open>if data:\<close> holds of a dictionary with an
  entry. An error of \<^verbatim>\<open>extract_data\<close> is not caught.\<close>

fun parse_loop :: "MessagePattern list \<Rightarrow> string \<Rightarrow> error + (string \<times> dict) option" where
  "parse_loop [] mensaje = Inr None"
| "parse_loop (p # ps) mensaje =
     (if can_handle p mensaje
      then (case extract_data p mensaje of
              Inl e \<Rightarrow> Inl e
            | Inr None \<Rightarrow> parse_loop ps mensaje
            | Inr (Some data) \<Rightarrow>
                if data \<noteq> [] then Inr (Some (get_action p, data)) else parse_loop ps mensaje)
      else parse_loop ps mensaje)"

definition parse :: "string \<Rightarrow> error + (string \<times> dict) option" where
  "parse mensaje = parse_loop patterns (strip mensaje)"

section \<open>An example store\<close>

text \<open>User 42 has the budget moto of 100000, one expense of 15000 and one income of 5000.\<close>

definition ejemplo_db :: db where
  "ejemplo_db =
     \<lparr> presupuestos =
         [\<lparr> pr_id = 1, pr_usuario_id = ''42'', pr_categoria = ''moto'', pr_monto = Fin 100000,
            pr_periodicidad = ''mensual'', pr_creado_en = 0 \<rparr>],
       movimientos =
         [\<lparr> mv_id = 1, mv_usuario_id = ''42'', mv_categoria = ''moto'', mv_tipo = ''gasto'',
            mv_monto = Fin 15000, mv_concepto = Some [], mv_fecha = 1 \<rparr>,
          \<lparr> mv_id = 2, mv_usuario_id = ''42'', mv_categoria = ''moto'', mv_tipo = ''ingreso'',
            mv_monto = Fin 5000, mv_concepto = Some [], mv_fecha = 2 \<rparr>],
       seq_presupuestos = 1, seq_movimientos = 2 \<rparr>"

text \<open>User 42 has the budget ahorro of 10^16, one expense of 10^16 and one income of 1.\<close>

definition ejemplo_grande :: db where
  "ejemplo_grande =
     \<lparr> presupuestos =
         [\<lparr> pr_id = 1, pr_usuario_id = ''42'', pr_categoria = ''ahorro'', pr_monto = Fin 10000000000000000,
            pr_periodicidad = ''mensual'', pr_creado_en = 0 \<rparr>],
       movimientos =
         [\<lparr> mv_id = 1, mv_usuario_id = ''42'', mv_categoria = ''ahorro'', mv_tipo = ''gasto'',
            mv_monto = Fin 10000000000000000, mv_concepto = Some [], mv_fecha = 1 \<rparr>,
          \<lparr> mv_id = 2, mv_usuario_id = ''42'', mv_categoria = ''ahorro'', mv_tipo = ''ingreso'',
            mv_monto = Fin 1, mv_concepto = Some [], mv_fecha = 2 \<rparr>],
       seq_presupuestos = 1, seq_movimientos = 2 \<rparr>"

section \<open>Notions the properties are stated with\<close>

text \<open>The messages the services answer a failed validation of the input with: a blank
  category, an amount that is not positive, a periodicity that is not one of the four, and
  the constructor's message for a movement kind that is neither gasto nor ingreso.\<close>

definition es_mensaje_validacion :: "mensaje \<Rightarrow> bool" where
  "es_mensaje_validacion m =
     (m = Texto msg_categoria_vacia \<or> m = Texto msg_monto \<or> m = Texto msg_periodicidad
      \<or> m = Texto (''Tipo debe ser '' @ comillas ''gasto'' @ '' o '' @ comillas ''ingreso''))"

text \<open>The CHECK constraint of the table movimientos.\<close>

definition tipos_validos :: "db \<Rightarrow> bool" where
  "tipos_validos d = list_all (\<lambda>r. mv_tipo r \<in> set [''gasto'', ''ingreso'']) (movimientos d)"

text \<open>Every stored category is its own lowercased and stripped form.\<close>

definition categorias_normalizadas :: "db \<Rightarrow> bool" where
  "categorias_normalizadas d =
     (list_all (\<lambda>r. pr_categoria r = strip (lower (pr_categoria r))) (presupuestos d)
      \<and> list_all (\<lambda>r. mv_categoria r = strip (lower (mv_categoria r))) (movimientos d))"

text \<open>The calls of the facade that write to the store, and the store after one of them. An
  error leaves the store as it was: nothing was committed, and \<^verbatim>\<open>get_connection\<close> rolls
  the transaction back.\<close>

datatype operacion =
    Crear datetime string string numero string
  | Actualizar string string numero "string option"
  | Eliminar string string
  | Gasto datetime string string numero string
  | Ingreso datetime string string numero string

fun ejecutar :: "db \<Rightarrow> operacion \<Rightarrow> db" where
  "ejecutar d (Crear now u c m p) =
     (case MonevoFacade_crear_presupuesto now d u c m p of Inl e \<Rightarrow> d | Inr (r, d') \<Rightarrow> d')"
| "ejecutar d (Actualizar u c m p) =
     (case MonevoFacade_actualizar_presupuesto d u c m p of Inl e \<Rightarrow> d | Inr (r, d') \<Rightarrow> d')"
| "ejecutar d (Eliminar u c) = snd (MonevoFacade_eliminar_presupuesto d u c)"
| "ejecutar d (Gasto now u c m k) =
     (case MonevoFacade_registrar_gasto now d u c m k of Inl e \<Rightarrow> d | Inr (r, d') \<Rightarrow> d')"
| "ejecutar d (Ingreso now u c m k) =
     (case MonevoFacade_registrar_ingreso now d u c m k of Inl e \<Rightarrow> d | Inr (r, d') \<Rightarrow> d')"

text \<open>The stores the public operations reach from the empty one.\<close>

definition alcanzado :: "operacion list \<Rightarrow> db" where
  "alcanzado ops = foldl ejecutar init_db ops"

text \<open>The row the INSERT of \<^verbatim>\<open>crear_presupuesto\<close> adds for a budget the constructor
  built from these arguments, the row the INSERT of \<^verbatim>\<open>registrar_movimiento\<close> adds for
  such a movement, each with the amount as the REAL column holds it, and the \<^verbatim>\<open>Movimiento\<close> that \<^verbatim>\<open>obtener_historial\<close> builds of a
  row.\<close>

definition fila_nueva :: "db \<Rightarrow> datetime \<Rightarrow> string \<Rightarrow> string \<Rightarrow> double \<Rightarrow> string \<Rightarrow> presupuesto_row" where
  "fila_nueva d now u c m p =
     \<lparr> pr_id = Suc (seq_presupuestos d), pr_usuario_id = u, pr_categoria = strip (lower c),
       pr_monto = m, pr_periodicidad = p, pr_creado_en = now \<rparr>"

definition fila_movimiento :: "db \<Rightarrow> datetime \<Rightarrow> string \<Rightarrow> string \<Rightarrow> string \<Rightarrow> double \<Rightarrow> string \<Rightarrow> movimiento_row" where
  "fila_movimiento d now u c t m k =
     \<lparr> mv_id = Suc (seq_movimientos d), mv_usuario_id = u, mv_categoria = strip (lower c),
       mv_tipo = t, mv_monto = m, mv_concepto = Some k, mv_fecha = now \<rparr>"

definition movimiento_de_fila :: "string \<Rightarrow> string \<Rightarrow> movimiento_row \<Rightarrow> Movimiento" where
  "movimiento_de_fila usuario_id categoria row =
     \<lparr> m_categoria = strip (lower categoria), m_tipo = mv_tipo row,
       m_monto = Flotante (mv_monto row),
       m_usuario_id = Some usuario_id, m_concepto = mv_concepto row, m_fecha = mv_fecha row,
       m_id = Some (mv_id row) \<rparr>"

section \<open>Normalisation of categories\<close>

lemma of_char_lower_char:
  "(of_char (lower_char c) :: nat) =
     (let n = of_char c in
      if (65 \<le> n \<and> n \<le> 90) \<or> (192 \<le> n \<and> n \<le> 222 \<and> n \<noteq> 215) then n + 32 else n)"
  by (auto simp: lower_char_def Let_def)

lemma lower_char_idem: "lower_char (lower_char c) = lower_char c"
proof -
  have "(of_char (lower_char (lower_char c)) :: nat) = of_char (lower_char c)"
    by (simp only: of_char_lower_char [of "lower_char c"]) (auto simp: of_char_lower_char Let_def)
  then show ?thesis by simp
qed

lemma isspace_lower_char: "isspace (lower_char c) = isspace c"
  unfolding isspace_def of_char_lower_char by (auto simp: Let_def)

lemma lower_idem: "lower (lower s) = lower s"
  by (simp add: lower_def lower_char_idem)

lemma dropWhile_isspace_lower: "dropWhile isspace (lower s) = lower (dropWhile isspace s)"
  by (induction s) (simp_all add: lower_def isspace_lower_char)

lemma lower_rev: "lower (rev s) = rev (lower s)"
  by (simp add: lower_def rev_map)

lemma strip_lower: "strip (lower s) = lower (strip s)"
  by (simp add: strip_def lstrip_def rstrip_def dropWhile_isspace_lower lower_rev [symmetric])

lemma dropWhile_idem: "dropWhile P (dropWhile P xs) = dropWhile P xs"
  by (induction xs) simp_all

lemma rstrip_prefix: "\<exists>zs. s = rstrip s @ zs"
proof -
  have "rstrip s @ rev (takeWhile isspace (rev s)) =
          rev (takeWhile isspace (rev s) @ dropWhile isspace (rev s))"
    unfolding rstrip_def by (simp only: rev_append)
  also have "\<dots> = s"
    by simp
  finally show ?thesis
    by (intro exI [of _ "rev (takeWhile isspace (rev s))"]) simp
qed

lemma lstrip_rstrip_lstrip: "lstrip (rstrip (lstrip s)) = rstrip (lstrip s)"
proof (cases "rstrip (lstrip s)")
  case Nil
  then show ?thesis by (simp add: lstrip_def)
next
  case (Cons y ys)
  obtain zs where zs: "lstrip s = rstrip (lstrip s) @ zs"
    using rstrip_prefix by blast
  then have "lstrip s = y # (ys @ zs)"
    using Cons by simp
  then have "\<not> isspace y"
    unfolding lstrip_def by (metis hd_dropWhile list.sel(1) list.distinct(1))
  then show ?thesis
    using Cons by (simp add: lstrip_def)
qed

lemma rstrip_idem: "rstrip (rstrip s) = rstrip s"
  by (simp add: rstrip_def dropWhile_idem)

lemma strip_idem: "strip (strip s) = strip s"
  by (simp add: strip_def lstrip_rstrip_lstrip rstrip_idem)

lemma normalizar_idem: "strip (lower (strip (lower s))) = strip (lower s)"
  by (simp add: strip_lower lower_idem strip_idem)

section \<open>The example stores are stores the facade builds\<close>

text \<open>The first example store is the one the facade builds from the empty one by creating
  the budget at time 0 and recording the two movements at times 1 and 2; so is the second.\<close>

lemma ejemplo_db_built:
  "alcanzado [Crear 0 ''42'' ''moto'' (Entero 100000) ''mensual'',
              Gasto 1 ''42'' ''moto'' (Entero 15000) [],
              Ingreso 2 ''42'' ''moto'' (Entero 5000) []] = ejemplo_db"
  by code_simp

lemma ejemplo_grande_built:
  "alcanzado [Crear 0 ''42'' ''ahorro'' (Entero 10000000000000000) ''mensual'',
              Gasto 1 ''42'' ''ahorro'' (Flotante (Fin 10000000000000000)) [],
              Ingreso 2 ''42'' ''ahorro'' (Entero 1) []] = ejemplo_grande"
  by code_simp

section \<open>Summaries\<close>











section \<open>The parser on the documented phrases\<close>

lemma parse_gasto:
  "parse (''Gast'' @ [CHR 0xE9] @ '' 3000 de moto por gasolina'') =
     Inr (Some (''gasto'', [(''monto'', VInt 3000), (''categoria'', VStr ''moto''),
                       (''concepto'', VStr ''gasolina'')]))"
  by code_simp

lemma parse_ingreso:
  "parse ([CHR ''A'', CHR 0xF1] @ ''ad'' @ [CHR 0xED] @ '' 5000 a inversi'' @ [CHR 0xF3] @ ''n'') =
     Inr (Some (''ingreso'', [(''monto'', VInt 5000),
                         (''categoria'', VStr (''inversi'' @ [CHR 0xF3] @ ''n'')),
                         (''concepto'', VStr [])]))"
  by code_simp

lemma parse_ver:
  "parse ''Ver presupuesto moto'' = Inr (Some (''ver_presupuesto'', [(''categoria'', VStr ''moto'')]))"
  by code_simp

lemma parse_sin_intencion: "parse ''hola que tal'' = Inr None"
  by code_simp

text \<open>
  Claim C8. The parser maps the four documented phrases as follows (an accented letter
  is written as its code point: 0xE9 is e acute, 0xF1 n tilde, 0xED i acute, 0xF3 o acute).
  The phrase Gast[0xE9] 3000 de moto por gasolina gives the action gasto (expense) with
  amount 3000, category moto and memo gasolina; A[0xF1]ad[0xED] 5000 a inversi[0xF3]n gives
  the action ingreso (income) with amount 5000, category inversi[0xF3]n and the empty memo;
  Ver presupuesto moto gives the action ver_presupuesto (view) with category moto; and
  hola que tal gives no intent: \<open>parse\<close> returns \<open>None\<close>. None of the four raises an
  error (each result is an \<open>Inr\<close>).
\<close>

theorem parse_documented_phrases:
  "parse (''Gast'' @ [CHR 0xE9] @ '' 3000 de moto por gasolina'') =
     Inr (Some (''gasto'', [(''monto'', VInt 3000), (''categoria'', VStr ''moto''),
                       (''concepto'', VStr ''gasolina'')]))
   \<and> parse ([CHR ''A'', CHR 0xF1] @ ''ad'' @ [CHR 0xED] @ '' 5000 a inversi'' @ [CHR 0xF3] @ ''n'') =
     Inr (Some (''ingreso'', [(''monto'', VInt 5000),
                         (''categoria'', VStr (''inversi'' @ [CHR 0xF3] @ ''n'')),
                         (''concepto'', VStr [])]))
   \<and> parse ''Ver presupuesto moto'' = Inr (Some (''ver_presupuesto'', [(''categoria'', VStr ''moto'')]))
   \<and> parse ''hola que tal'' = Inr None"
  using parse_gasto parse_ingreso parse_ver parse_sin_intencion by blast

section \<open>Creating budgets and recording movements\<close>

lemma presupuesto_existe_normalizado:
  "SQLiteRepository_presupuesto_existe d u (strip (lower c)) = SQLiteRepository_presupuesto_existe d u c"
  by (simp add: SQLiteRepository_presupuesto_existe_def normalizar_idem)


lemma repo_crear_presupuesto:
  "SQLiteRepository_crear_presupuesto d (Presupuesto_init now c m p (Some u) None None) =
     (if SQLiteRepository_presupuesto_existe d u c then Inr (False, d)
      else case adapt_numero m of
             Inl e \<Rightarrow> Inl e
           | Inr None \<Rightarrow> Inl IntegrityError
           | Inr (Some x) \<Rightarrow>
               Inr (True, d\<lparr> presupuestos := presupuestos d @ [fila_nueva d now u c x p],
                             seq_presupuestos := Suc (seq_presupuestos d) \<rparr>))"
  by (simp add: SQLiteRepository_crear_presupuesto_def Presupuesto_init_def insert_presupuesto_def
      presupuesto_existe_normalizado fila_nueva_def split: sum.splits option.splits)
     (simp add: SQLiteRepository_presupuesto_existe_def)


lemma service_crear_presupuesto:
  "PresupuestoService_crear_presupuesto now d u c m p =
     (if strip c = [] then Inr ((False, Texto msg_categoria_vacia), d)
      else if no_positivo m then Inr ((False, Texto msg_monto), d)
      else if lower p \<notin> set periodicidades then Inr ((False, Texto msg_periodicidad), d)
      else if SQLiteRepository_presupuesto_existe d u c
      then Inr ((False, Texto (''Ya existe un presupuesto para '' @ comillas c)), d)
      else case adapt_numero m of
             Inl e \<Rightarrow> Inl e
           | Inr None \<Rightarrow> Inl IntegrityError
           | Inr (Some x) \<Rightarrow>
               Inr ((True, Texto (''Presupuesto '' @ comillas c @ '' creado exitosamente'')),
                    d\<lparr> presupuestos := presupuestos d @ [fila_nueva d now u c x (lower p)],
                       seq_presupuestos := Suc (seq_presupuestos d) \<rparr>))"
  by (simp add: PresupuestoService_crear_presupuesto_def repo_crear_presupuesto Let_def
      split: sum.splits option.splits)

lemma adapt_numero_errores:
  "adapt_numero m = Inl e \<Longrightarrow> e = OverflowError"
  by (cases m rule: adapt_numero.cases) (simp_all split: if_splits)


lemma service_actualizar_monto:
  "no_positivo m \<Longrightarrow>
     PresupuestoService_actualizar_presupuesto d u c m po = Inr ((False, Texto msg_monto), d)"
  by (simp add: PresupuestoService_actualizar_presupuesto_def)

lemma service_registrar_movimiento:
  "MovimientoService_registrar_movimiento now d u c t m k =
     (if \<not> SQLiteRepository_presupuesto_existe d u c
      then Inr ((False, Texto (msg_crear_primero c)), d)
      else if no_positivo m then Inr ((False, Texto msg_monto), d)
      else if t \<notin> set [''gasto'', ''ingreso'']
      then Inr ((False, Texto (''Tipo debe ser '' @ comillas ''gasto'' @ '' o '' @ comillas ''ingreso'')), d)
      else case adapt_numero m of
             Inl e \<Rightarrow> Inl e
           | Inr None \<Rightarrow> Inl IntegrityError
           | Inr (Some x) \<Rightarrow>
               Inr ((True, MovimientoRegistrado
                      (if t = ''gasto'' then ''Gasto registrado'' else ''Ingreso registrado'') m c k),
                    d\<lparr> movimientos := movimientos d @ [fila_movimiento d now u c t x k],
                       seq_movimientos := Suc (seq_movimientos d) \<rparr>))"
proof (cases "adapt_numero m")
  case (Inl e)
  then have "e = OverflowError" by (rule adapt_numero_errores)
  with Inl show ?thesis
    by (simp add: MovimientoService_registrar_movimiento_def PresupuestoService_presupuesto_existe_def
        Movimiento_init_def SQLiteRepository_registrar_movimiento_def comillas_def)
next
  case (Inr v)
  then show ?thesis
    by (cases v)
       (simp_all add: MovimientoService_registrar_movimiento_def
          PresupuestoService_presupuesto_existe_def Movimiento_init_def
          SQLiteRepository_registrar_movimiento_def fila_movimiento_def comillas_def)
qed

lemma service_registrar_gasto:
  "MovimientoService_registrar_gasto now d u c m k =
     (if \<not> SQLiteRepository_presupuesto_existe d u c
      then Inr ((False, Texto (msg_crear_primero c)), d)
      else if no_positivo m then Inr ((False, Texto msg_monto), d)
      else case adapt_numero m of
             Inl e \<Rightarrow> Inl e
           | Inr None \<Rightarrow> Inl IntegrityError
           | Inr (Some x) \<Rightarrow>
               Inr ((True, MovimientoRegistrado ''Gasto registrado'' m c k),
                    d\<lparr> movimientos := movimientos d @ [fila_movimiento d now u c ''gasto'' x k],
                       seq_movimientos := Suc (seq_movimientos d) \<rparr>))"
  by (simp add: MovimientoService_registrar_gasto_def service_registrar_movimiento)

lemma service_registrar_ingreso:
  "MovimientoService_registrar_ingreso now d u c m k =
     (if \<not> SQLiteRepository_presupuesto_existe d u c
      then Inr ((False, Texto (msg_crear_primero c)), d)
      else if no_positivo m then Inr ((False, Texto msg_monto), d)
      else case adapt_numero m of
             Inl e \<Rightarrow> Inl e
           | Inr None \<Rightarrow> Inl IntegrityError
           | Inr (Some x) \<Rightarrow>
               Inr ((True, MovimientoRegistrado ''Ingreso registrado'' m c k),
                    d\<lparr> movimientos := movimientos d @ [fila_movimiento d now u c ''ingreso'' x k],
                       seq_movimientos := Suc (seq_movimientos d) \<rparr>))"
  by (simp add: MovimientoService_registrar_ingreso_def service_registrar_movimiento)

lemmas facade_defs =
  MonevoFacade_crear_presupuesto_def MonevoFacade_actualizar_presupuesto_def
  MonevoFacade_eliminar_presupuesto_def MonevoFacade_obtener_resumen_def
  MonevoFacade_registrar_gasto_def MonevoFacade_registrar_ingreso_def
  MonevoFacade_obtener_historial_def MonevoFacade_presupuesto_existe_def
  PresupuestoService_presupuesto_existe_def




text \<open>
  Claim C5. When the budget service reports that no budget exists for the user and the
  category, recording an expense and recording an income both fail with the message
  No existe presupuesto '<category>'. Cr[0xE9]alo primero con /crear and return the store
  unchanged, for every amount, memo and time. The movement service asks
  \<open>PresupuestoService_presupuesto_existe\<close>, not the repository.
\<close>

theorem registrar_sin_presupuesto:
  assumes "\<not> PresupuestoService_presupuesto_existe d u c"
  shows "MonevoFacade_registrar_gasto now d u c m k = Inr ((False, Texto (msg_crear_primero c)), d)
       \<and> MonevoFacade_registrar_ingreso now d u c m k = Inr ((False, Texto (msg_crear_primero c)), d)
       \<and> msg_crear_primero c =
           ''No existe presupuesto '' @ [CHR 0x27] @ c @ [CHR 0x27] @ ''. Cr'' @ [CHR 0xE9]
             @ ''alo primero con /crear''"
  using assms
  by (simp add: facade_defs service_registrar_gasto service_registrar_ingreso msg_crear_primero_def
      comillas_def)

theorem registrar_sin_presupuesto_witness:
  "\<not> PresupuestoService_presupuesto_existe init_db ''42'' ''moto''
   \<and> MonevoFacade_registrar_gasto 1 init_db ''42'' ''moto'' (Entero 3000) ''gasolina''
       = Inr ((False, Texto (msg_crear_primero ''moto'')), init_db)
   \<and> MonevoFacade_registrar_ingreso 1 init_db ''42'' ''moto'' (Entero 3000) ''gasolina''
       = Inr ((False, Texto (msg_crear_primero ''moto'')), init_db)"
proof -
  have h: "\<not> PresupuestoService_presupuesto_existe init_db ''42'' ''moto''" by code_simp
  show ?thesis
    using registrar_sin_presupuesto [OF h] h by blast
qed

text \<open>
  Claim C6, as stated, fails: recording a movement with amount 0 on the empty store answers
  with the create-the-budget-first message, which is not a validation message, since the
  movement service checks that the budget exists before it checks the amount.
\<close>

theorem monto_no_positivo_counterexample:
  "no_positivo (Entero 0)
   \<and> MonevoFacade_registrar_gasto 0 init_db ''42'' ''moto'' (Entero 0) [] =
       Inr ((False, Texto (msg_crear_primero ''moto'')), init_db)
   \<and> \<not> es_mensaje_validacion (Texto (msg_crear_primero ''moto''))"
  by (simp add: facade_defs service_registrar_gasto SQLiteRepository_presupuesto_existe_def
      init_db_def es_mensaje_validacion_def msg_crear_primero_def msg_categoria_vacia_def
      msg_monto_def msg_periodicidad_def comillas_def)

text \<open>
  Claim C6, amended. For every amount that is not positive (an integer or a float for
  which \<^verbatim>\<open>monto <= 0\<close> holds), creating a budget fails with a validation message (of the
  blank category, checked first, or of the amount), updating a budget fails with the
  validation message of the amount, and recording an expense or an income fails with the
  validation message of the amount when the budget exists and with the
  create-the-budget-first message when it does not. In every case the store is returned
  unchanged.
\<close>

theorem monto_no_positivo_rechazado:
  assumes "no_positivo m"
  shows "(\<exists>msg. MonevoFacade_crear_presupuesto now d u c m p = Inr ((False, msg), d)
                \<and> es_mensaje_validacion msg)
       \<and> MonevoFacade_actualizar_presupuesto d u c m po = Inr ((False, Texto msg_monto), d)
       \<and> es_mensaje_validacion (Texto msg_monto)
       \<and> MonevoFacade_registrar_gasto now d u c m k =
           Inr ((False, Texto (if MonevoFacade_presupuesto_existe d u c then msg_monto
                               else msg_crear_primero c)), d)
       \<and> MonevoFacade_registrar_ingreso now d u c m k =
           Inr ((False, Texto (if MonevoFacade_presupuesto_existe d u c then msg_monto
                               else msg_crear_primero c)), d)"
  using assms
  by (simp add: facade_defs service_crear_presupuesto service_actualizar_monto
      service_registrar_gasto service_registrar_ingreso es_mensaje_validacion_def)

theorem monto_no_positivo_rechazado_witness:
  "no_positivo (Entero (- 5))
   \<and> MonevoFacade_actualizar_presupuesto ejemplo_db ''42'' ''moto'' (Entero (- 5)) None
       = Inr ((False, Texto msg_monto), ejemplo_db)
   \<and> MonevoFacade_registrar_gasto 3 ejemplo_db ''42'' ''moto'' (Entero (- 5)) []
       = Inr ((False, Texto msg_monto), ejemplo_db)
   \<and> MonevoFacade_registrar_ingreso 3 init_db ''42'' ''moto'' (Entero (- 5)) []
       = Inr ((False, Texto (msg_crear_primero ''moto'')), init_db)"
proof -
  have h: "no_positivo (Entero (- 5))" by simp
  have e1: "MonevoFacade_presupuesto_existe ejemplo_db ''42'' ''moto''" by code_simp
  have e2: "\<not> MonevoFacade_presupuesto_existe init_db ''42'' ''moto''" by code_simp
  show ?thesis
    using monto_no_positivo_rechazado [OF h, of 3 ejemplo_db "''42''" "''moto''" "''mensual''" None "[]"]
      monto_no_positivo_rechazado [OF h, of 3 init_db "''42''" "''moto''" "''mensual''" None "[]"]
      h e1 e2
    by simp
qed

section \<open>History\<close>

lemma mset_insert_desc: "mset (insert_desc x ys) = add_mset x (mset ys)"
  by (induction ys) simp_all

lemma mset_order_by_fecha_desc: "mset (order_by_fecha_desc xs) = mset xs"
  by (induction xs) (simp_all add: mset_insert_desc)

lemma set_insert_desc: "set (insert_desc x ys) = insert x (set ys)"
  by (induction ys) auto

lemma set_order_by_fecha_desc: "set (order_by_fecha_desc xs) = set xs"
  by (induction xs) (simp_all add: set_insert_desc)

lemma insert_desc_not_Nil: "insert_desc x ys \<noteq> []"
  by (cases ys) simp_all

lemma order_by_fecha_desc_Nil: "order_by_fecha_desc xs = [] \<longleftrightarrow> xs = []"
  by (cases xs) (simp_all add: insert_desc_not_Nil)

lemma sorted_insert_desc:
  "sorted_wrt (\<lambda>a b. mv_fecha b \<le> mv_fecha a) ys \<Longrightarrow>
     sorted_wrt (\<lambda>a b. mv_fecha b \<le> mv_fecha a) (insert_desc x ys)"
  by (induction ys) (auto simp: set_insert_desc)

lemma sorted_order_by_fecha_desc:
  "sorted_wrt (\<lambda>a b. mv_fecha b \<le> mv_fecha a) (order_by_fecha_desc xs)"
  by (induction xs) (simp_all add: sorted_insert_desc)

lemma insert_desc_oldest:
  "\<forall>y \<in> set ys. mv_fecha x < mv_fecha y \<Longrightarrow> insert_desc x ys = ys @ [x]"
  by (induction ys) auto

lemma order_by_fecha_desc_increasing:
  "sorted_wrt (<) (map mv_fecha xs) \<Longrightarrow> order_by_fecha_desc xs = rev xs"
proof (induction xs)
  case Nil
  then show ?case by simp
next
  case (Cons x xs)
  then have "order_by_fecha_desc xs = rev xs" and "\<forall>y \<in> set (rev xs). mv_fecha x < mv_fecha y"
    by auto
  then show ?case
    by (simp add: insert_desc_oldest)
qed

lemma construir_movimientos_validos:
  "list_all (\<lambda>r. mv_tipo r \<in> set [''gasto'', ''ingreso'']) rows \<Longrightarrow>
     construir_movimientos now u c rows = Inr (map (movimiento_de_fila u c) rows)"
  by (induction rows) (simp_all add: Movimiento_init_def movimiento_de_fila_def)

lemma repo_obtener_historial:
  assumes "tipos_validos d"
  shows "SQLiteRepository_obtener_historial now d u c =
           Inr (map (movimiento_de_fila u c)
                  (order_by_fecha_desc
                     (filter (\<lambda>r. mv_usuario_id r = u \<and> mv_categoria r = strip (lower c))
                        (movimientos d))))"
proof -
  let ?rows = "filter (\<lambda>r. mv_usuario_id r = u \<and> mv_categoria r = strip (lower c)) (movimientos d)"
  have "set (order_by_fecha_desc ?rows) \<subseteq> set (movimientos d)"
    by (simp add: set_order_by_fecha_desc)
  then have "list_all (\<lambda>r. mv_tipo r \<in> set [''gasto'', ''ingreso'']) (order_by_fecha_desc ?rows)"
    using assms unfolding tipos_validos_def list_all_iff by blast
  then show ?thesis
    unfolding SQLiteRepository_obtener_historial_def by (rule construir_movimientos_validos)
qed

text \<open>
  Claim C7. In a store that meets the CHECK constraint on the kind of a movement, the
  history of a user and category fails with No existe presupuesto '<category>' when no
  budget exists for the key; fails with No hay movimientos registrados para '<category>',
  a different text, when the budget exists and no movement is stored under the key; and
  otherwise succeeds with the movements built from the rows stored under the user and the
  normalised category. Those rows are returned all and once each, ordered by timestamp
  descending; when their timestamps increase strictly in insertion order, the result is
  the insertion order reversed.
\<close>

theorem obtener_historial_casos:
  assumes "tipos_validos d"
  shows "(let rows = filter (\<lambda>r. mv_usuario_id r = u \<and> mv_categoria r = strip (lower c))
                       (movimientos d);
              latest_first = order_by_fecha_desc rows
          in MonevoFacade_obtener_historial now d u c =
               (if \<not> MonevoFacade_presupuesto_existe d u c
                then Inr (False, Texto (''No existe presupuesto '' @ comillas c), [])
                else if rows = []
                then Inr (False, Texto (''No hay movimientos registrados para '' @ comillas c), [])
                else Inr (True, Texto ''Historial obtenido exitosamente'',
                          map (movimiento_de_fila u c) latest_first))
             \<and> mset latest_first = mset rows
             \<and> sorted_wrt (\<lambda>a b. mv_fecha b \<le> mv_fecha a) latest_first
             \<and> (sorted_wrt (<) (map mv_fecha rows) \<longrightarrow> latest_first = rev rows))
         \<and> ''No existe presupuesto '' @ comillas c
             \<noteq> ''No hay movimientos registrados para '' @ comillas c"
proof -
  let ?rows = "filter (\<lambda>r. mv_usuario_id r = u \<and> mv_categoria r = strip (lower c)) (movimientos d)"
  have vacio: "order_by_fecha_desc ?rows = [] \<longleftrightarrow> ?rows = []"
    by (rule order_by_fecha_desc_Nil)
  have a: "MonevoFacade_obtener_historial now d u c =
               (if \<not> MonevoFacade_presupuesto_existe d u c
                then Inr (False, Texto (''No existe presupuesto '' @ comillas c), [])
                else if ?rows = []
                then Inr (False, Texto (''No hay movimientos registrados para '' @ comillas c), [])
                else Inr (True, Texto ''Historial obtenido exitosamente'',
                          map (movimiento_de_fila u c) (order_by_fecha_desc ?rows)))"
    by (simp add: facade_defs MovimientoService_obtener_historial_def
        repo_obtener_historial [OF assms] vacio)
  have b: "''No existe presupuesto '' @ comillas c
             \<noteq> ''No hay movimientos registrados para '' @ comillas c"
    by simp
  show ?thesis
    unfolding Let_def
    by (intro conjI impI a b mset_order_by_fecha_desc sorted_order_by_fecha_desc
        order_by_fecha_desc_increasing)
qed

theorem obtener_historial_casos_witness:
  "tipos_validos ejemplo_db
   \<and> MonevoFacade_obtener_historial 3 ejemplo_db ''42'' ''MOTO '' =
       Inr (True, Texto ''Historial obtenido exitosamente'',
            map (movimiento_de_fila ''42'' ''MOTO '') (rev (movimientos ejemplo_db)))
   \<and> MonevoFacade_obtener_historial 3 ejemplo_db ''42'' ''casa'' =
       Inr (False, Texto (''No existe presupuesto '' @ comillas ''casa''), [])"
proof -
  have h: "tipos_validos ejemplo_db"
    by (simp add: tipos_validos_def ejemplo_db_def)
  have e1: "MonevoFacade_presupuesto_existe ejemplo_db ''42'' ''MOTO ''" by code_simp
  have e2: "\<not> MonevoFacade_presupuesto_existe ejemplo_db ''42'' ''casa''" by code_simp
  have n: "strip (lower ''MOTO '') = ''moto''" by code_simp
  have rows: "filter (\<lambda>r. mv_usuario_id r = ''42'' \<and> mv_categoria r = strip (lower ''MOTO ''))
                (movimientos ejemplo_db) = movimientos ejemplo_db"
    unfolding n by (simp add: ejemplo_db_def)
  have inc: "sorted_wrt (<) (map mv_fecha (movimientos ejemplo_db))"
    by (simp add: ejemplo_db_def)
  have ne: "movimientos ejemplo_db \<noteq> []"
    by (simp add: ejemplo_db_def)
  from obtener_historial_casos [OF h, of "''42''" "''MOTO ''" 3]
  have a: "MonevoFacade_obtener_historial 3 ejemplo_db ''42'' ''MOTO '' =
       Inr (True, Texto ''Historial obtenido exitosamente'',
            map (movimiento_de_fila ''42'' ''MOTO '') (rev (movimientos ejemplo_db)))"
    unfolding Let_def rows using e1 inc ne by simp
  from obtener_historial_casos [OF h, of "''42''" "''casa''" 3]
  have b: "MonevoFacade_obtener_historial 3 ejemplo_db ''42'' ''casa'' =
       Inr (False, Texto (''No existe presupuesto '' @ comillas ''casa''), [])"
    unfolding Let_def using e2 by simp
  show ?thesis
    using h a b by blast
qed

section \<open>Stored categories are normalised\<close>

lemma fila_nueva_normalizada:
  "pr_categoria (fila_nueva d now u c m p) = strip (lower (pr_categoria (fila_nueva d now u c m p)))"
  by (simp add: fila_nueva_def normalizar_idem)

lemma fila_movimiento_normalizada:
  "mv_categoria (fila_movimiento d now u c t m k)
     = strip (lower (mv_categoria (fila_movimiento d now u c t m k)))"
  by (simp add: fila_movimiento_def normalizar_idem)

lemma ejecutar_crear:
  "ejecutar d (Crear now u c m p) = d \<or>
   (\<exists>x. ejecutar d (Crear now u c m p) =
     d\<lparr> presupuestos := presupuestos d @ [fila_nueva d now u c x (lower p)],
        seq_presupuestos := Suc (seq_presupuestos d) \<rparr>)"
  by (auto simp: facade_defs service_crear_presupuesto split: sum.splits option.splits)

lemma ejecutar_gasto:
  "ejecutar d (Gasto now u c m k) = d \<or>
   (\<exists>x. ejecutar d (Gasto now u c m k) =
     d\<lparr> movimientos := movimientos d @ [fila_movimiento d now u c ''gasto'' x k],
        seq_movimientos := Suc (seq_movimientos d) \<rparr>)"
  by (auto simp: facade_defs service_registrar_gasto split: sum.splits option.splits)

lemma ejecutar_ingreso:
  "ejecutar d (Ingreso now u c m k) = d \<or>
   (\<exists>x. ejecutar d (Ingreso now u c m k) =
     d\<lparr> movimientos := movimientos d @ [fila_movimiento d now u c ''ingreso'' x k],
        seq_movimientos := Suc (seq_movimientos d) \<rparr>)"
  by (auto simp: facade_defs service_registrar_ingreso split: sum.splits option.splits)

lemma ejecutar_actualizar:
  "movimientos (ejecutar d (Actualizar u c m po)) = movimientos d
   \<and> map pr_categoria (presupuestos (ejecutar d (Actualizar u c m po)))
       = map pr_categoria (presupuestos d)
   \<and> map pr_id (presupuestos (ejecutar d (Actualizar u c m po))) = map pr_id (presupuestos d)"
  by (simp add: facade_defs PresupuestoService_actualizar_presupuesto_def
      SQLiteRepository_actualizar_presupuesto_def split: sum.splits option.splits)

lemma ejecutar_eliminar:
  "set (presupuestos (ejecutar d (Eliminar u c))) \<subseteq> set (presupuestos d)
   \<and> set (movimientos (ejecutar d (Eliminar u c))) \<subseteq> set (movimientos d)"
  by (auto simp: facade_defs PresupuestoService_eliminar_presupuesto_def
      SQLiteRepository_eliminar_presupuesto_def)

lemma list_all_map_cong:
  "map f xs = map f ys \<Longrightarrow> list_all (\<lambda>r. P (f r)) xs = list_all (\<lambda>r. P (f r)) ys"
proof -
  assume "map f xs = map f ys"
  then have "list_all P (map f xs) = list_all P (map f ys)" by simp
  then show ?thesis by (simp add: list_all_iff)
qed

lemma ejecutar_preserva:
  assumes "categorias_normalizadas d"
  shows "categorias_normalizadas (ejecutar d op)"
proof (cases op)
  case (Crear now u c m p)
  show ?thesis
    using ejecutar_crear [of d now u c m p] assms fila_nueva_normalizada [of d now u c _ "lower p"]
    unfolding Crear categorias_normalizadas_def by (elim disjE exE) simp_all
next
  case (Actualizar u c m po)
  have "list_all (\<lambda>r. pr_categoria r = strip (lower (pr_categoria r)))
          (presupuestos (ejecutar d op)) =
        list_all (\<lambda>r. pr_categoria r = strip (lower (pr_categoria r))) (presupuestos d)"
    unfolding Actualizar
    using ejecutar_actualizar [of d u c m po]
    by (intro list_all_map_cong [where f = pr_categoria and P = "\<lambda>x. x = strip (lower x)"])
       simp
  then show ?thesis
    using assms ejecutar_actualizar [of d u c m po] unfolding Actualizar categorias_normalizadas_def
    by simp
next
  case (Eliminar u c)
  show ?thesis
    using assms ejecutar_eliminar [of d u c] unfolding Eliminar categorias_normalizadas_def list_all_iff
    by blast
next
  case (Gasto now u c m k)
  show ?thesis
    using ejecutar_gasto [of d now u c m k] assms fila_movimiento_normalizada [of d now u c "''gasto''" _ k]
    unfolding Gasto categorias_normalizadas_def by (elim disjE exE) simp_all
next
  case (Ingreso now u c m k)
  show ?thesis
    using ejecutar_ingreso [of d now u c m k] assms
      fila_movimiento_normalizada [of d now u c "''ingreso''" _ k]
    unfolding Ingreso categorias_normalizadas_def by (elim disjE exE) simp_all
qed

lemma foldl_ejecutar_preserva:
  "categorias_normalizadas d \<Longrightarrow> categorias_normalizadas (foldl ejecutar d ops)"
  by (induction ops arbitrary: d) (simp_all add: ejecutar_preserva)

lemma init_db_normalizada: "categorias_normalizadas init_db"
  by (simp add: categorias_normalizadas_def init_db_def)

lemma mismas_claves:
  assumes "map pr_id xs = map pr_id ys" and "map pr_categoria xs = map pr_categoria ys"
  shows "\<forall>r' \<in> set xs. \<exists>r \<in> set ys. pr_id r = pr_id r' \<and> pr_categoria r = pr_categoria r'"
proof
  fix r'
  assume "r' \<in> set xs"
  then obtain i where i: "i < length xs" and r': "r' = xs ! i"
    by (auto simp: in_set_conv_nth)
  have len: "length xs = length ys"
    using assms(1) by (rule map_eq_imp_length_eq)
  have "pr_id (ys ! i) = map pr_id ys ! i" and "pr_categoria (ys ! i) = map pr_categoria ys ! i"
    using i len by simp_all
  moreover have "pr_id (xs ! i) = map pr_id xs ! i"
    and "pr_categoria (xs ! i) = map pr_categoria xs ! i"
    using i by simp_all
  ultimately have "pr_id (ys ! i) = pr_id r' \<and> pr_categoria (ys ! i) = pr_categoria r'"
    using assms r' by simp
  moreover have "ys ! i \<in> set ys"
    using i len by simp
  ultimately show "\<exists>r \<in> set ys. pr_id r = pr_id r' \<and> pr_categoria r = pr_categoria r'"
    by blast
qed

lemma ejecutar_presupuestos_marco:
  "\<forall>r' \<in> set (presupuestos (ejecutar d op)).
      (\<exists>r \<in> set (presupuestos d). pr_id r = pr_id r' \<and> pr_categoria r = pr_categoria r')
      \<or> (pr_id r' = Suc (seq_presupuestos d) \<and> pr_categoria r' = strip (lower (pr_categoria r')))"
proof (cases op)
  case (Crear now u c m p)
  show ?thesis
    using ejecutar_crear [of d now u c m p] fila_nueva_normalizada [of d now u c _ "lower p"]
    unfolding Crear by (elim disjE exE) (auto simp: fila_nueva_def)
next
  case (Actualizar u c m po)
  show ?thesis
    using ejecutar_actualizar [of d u c m po]
      mismas_claves [of "presupuestos (ejecutar d (Actualizar u c m po))" "presupuestos d"]
    unfolding Actualizar by blast
next
  case (Eliminar u c)
  show ?thesis
    using ejecutar_eliminar [of d u c] unfolding Eliminar by blast
next
  case (Gasto now u c m k)
  show ?thesis
    using ejecutar_gasto [of d now u c m k] unfolding Gasto by (elim disjE exE) auto
next
  case (Ingreso now u c m k)
  show ?thesis
    using ejecutar_ingreso [of d now u c m k] unfolding Ingreso by (elim disjE exE) auto
qed

lemma ejecutar_movimientos_marco:
  "\<forall>r' \<in> set (movimientos (ejecutar d op)).
      r' \<in> set (movimientos d)
      \<or> (mv_id r' = Suc (seq_movimientos d) \<and> mv_categoria r' = strip (lower (mv_categoria r')))"
proof (cases op)
  case (Crear now u c m p)
  show ?thesis
    using ejecutar_crear [of d now u c m p] unfolding Crear by (elim disjE exE) auto
next
  case (Actualizar u c m po)
  show ?thesis
    using ejecutar_actualizar [of d u c m po] unfolding Actualizar by simp
next
  case (Eliminar u c)
  show ?thesis
    using ejecutar_eliminar [of d u c] unfolding Eliminar by blast
next
  case (Gasto now u c m k)
  show ?thesis
    using ejecutar_gasto [of d now u c m k] fila_movimiento_normalizada [of d now u c "''gasto''" _ k]
    unfolding Gasto by (elim disjE exE) (auto simp: fila_movimiento_def)
next
  case (Ingreso now u c m k)
  show ?thesis
    using ejecutar_ingreso [of d now u c m k]
      fila_movimiento_normalizada [of d now u c "''ingreso''" _ k]
    unfolding Ingreso by (elim disjE exE) (auto simp: fila_movimiento_def)
qed

text \<open>Every store the facade reaches meets the CHECK constraint on the kind of a movement,
  which the history theorem assumes.\<close>

lemma ejecutar_tipos_validos:
  assumes "tipos_validos d"
  shows "tipos_validos (ejecutar d op)"
proof (cases op)
  case (Crear now u c m p)
  show ?thesis
    using ejecutar_crear [of d now u c m p] assms
    unfolding Crear tipos_validos_def by (elim disjE exE) simp_all
next
  case (Actualizar u c m po)
  show ?thesis
    using assms ejecutar_actualizar [of d u c m po] unfolding Actualizar tipos_validos_def
    by simp
next
  case (Eliminar u c)
  show ?thesis
    using assms ejecutar_eliminar [of d u c] unfolding Eliminar tipos_validos_def list_all_iff
    by blast
next
  case (Gasto now u c m k)
  show ?thesis
    using ejecutar_gasto [of d now u c m k] assms
    unfolding Gasto tipos_validos_def by (elim disjE exE) (simp_all add: fila_movimiento_def)
next
  case (Ingreso now u c m k)
  show ?thesis
    using ejecutar_ingreso [of d now u c m k] assms
    unfolding Ingreso tipos_validos_def by (elim disjE exE) (simp_all add: fila_movimiento_def)
qed

lemma alcanzado_tipos_validos: "tipos_validos (alcanzado ops)"
proof -
  have "tipos_validos d \<Longrightarrow> tipos_validos (foldl ejecutar d ops)" for d
    by (induction ops arbitrary: d) (simp_all add: ejecutar_tipos_validos)
  moreover have "tipos_validos init_db"
    by (simp add: tipos_validos_def init_db_def)
  ultimately show ?thesis
    unfolding alcanzado_def by blast
qed

text \<open>
  Claim C10. Every store the writing operations of the facade reach from the empty store
  holds only normalised categories, in both tables. Both constructors return an entity
  whose category is normalised. No operation changes a stored category: after any
  operation, a budget row has the id and category of a row that was there before, or is
  the row just inserted, whose category is normalised; and a movement row was there before
  or is the row just inserted, whose category is normalised.
\<close>

theorem categorias_siempre_normalizadas:
  "categorias_normalizadas (alcanzado ops)
   \<and> p_categoria (Presupuesto_init now c m p uo io t)
       = strip (lower (p_categoria (Presupuesto_init now c m p uo io t)))
   \<and> (\<forall>mo. Movimiento_init now c tipo m uo ko fo io = Inr mo
          \<longrightarrow> m_categoria mo = strip (lower (m_categoria mo)))
   \<and> (\<forall>r' \<in> set (presupuestos (ejecutar d op)).
        (\<exists>r \<in> set (presupuestos d). pr_id r = pr_id r' \<and> pr_categoria r = pr_categoria r')
        \<or> (pr_id r' = Suc (seq_presupuestos d)
            \<and> pr_categoria r' = strip (lower (pr_categoria r'))))
   \<and> (\<forall>r' \<in> set (movimientos (ejecutar d op)).
        r' \<in> set (movimientos d)
        \<or> (mv_id r' = Suc (seq_movimientos d)
            \<and> mv_categoria r' = strip (lower (mv_categoria r'))))"
proof -
  have a: "categorias_normalizadas (alcanzado ops)"
    unfolding alcanzado_def by (rule foldl_ejecutar_preserva [OF init_db_normalizada])
  have b: "p_categoria (Presupuesto_init now c m p uo io t)
       = strip (lower (p_categoria (Presupuesto_init now c m p uo io t)))"
    by (simp add: Presupuesto_init_def normalizar_idem)
  have c: "\<forall>mo. Movimiento_init now c tipo m uo ko fo io = Inr mo
          \<longrightarrow> m_categoria mo = strip (lower (m_categoria mo))"
    by (auto simp: Movimiento_init_def normalizar_idem split: if_splits)
  show ?thesis
    by (intro conjI a b c ejecutar_presupuestos_marco ejecutar_movimientos_marco)
qed

theorem categorias_siempre_normalizadas_witness:
  "categorias_normalizadas
     (alcanzado [Crear 0 ''42'' ''  Moto '' (Entero 100000) ''mensual'', Gasto 1 ''42'' ''MOTO '' (Entero 15000) [],
                 Actualizar ''42'' ''moto'' (Entero 200000) None])
   \<and> map pr_categoria (presupuestos
        (alcanzado [Crear 0 ''42'' ''  Moto '' (Entero 100000) ''mensual'', Gasto 1 ''42'' ''MOTO '' (Entero 15000) [],
                    Actualizar ''42'' ''moto'' (Entero 200000) None])) = [''moto'']
   \<and> map mv_categoria (movimientos
        (alcanzado [Crear 0 ''42'' ''  Moto '' (Entero 100000) ''mensual'', Gasto 1 ''42'' ''MOTO '' (Entero 15000) [],
                    Actualizar ''42'' ''moto'' (Entero 200000) None])) = [''moto'']
   \<and> (case Movimiento_init 0 ''  Moto '' ''gasto'' (Entero 5) None None None None of
         Inl e \<Rightarrow> False
       | Inr mo \<Rightarrow> m_categoria mo = strip (lower (m_categoria mo)))"
proof -
  let ?ops = "[Crear 0 ''42'' ''  Moto '' (Entero 100000) ''mensual'', Gasto 1 ''42'' ''MOTO '' (Entero 15000) [],
               Actualizar ''42'' ''moto'' (Entero 200000) None]"
  have a: "map pr_categoria (presupuestos (alcanzado ?ops)) = [''moto'']" by code_simp
  have b: "map mv_categoria (movimientos (alcanzado ?ops)) = [''moto'']" by code_simp
  have c: "Movimiento_init 0 ''  Moto '' ''gasto'' (Entero 5) None None None None \<noteq> Inl e" for e
    by (simp add: Movimiento_init_def)
  show ?thesis
    using categorias_siempre_normalizadas [of ?ops 0 "''  Moto ''" "Entero 5" "''mensual''" None None None
        "''gasto''" None None init_db "Crear 0 [] [] (Entero 0) []"] a b c
    by (auto split: sum.splits)
qed

section \<open>Updating and deleting under another spelling of the category\<close>

text \<open>Under the stored spelling of the category the repository updates and deletes the
  rows of the key, and the history then reports that the budget does not exist.\<close>

lemma actualizar_clave_normalizada:
  assumes "c = strip (lower c)" and "SQLiteRepository_presupuesto_existe d u c"
      and "adapt_numero m = Inr (Some x)"
  shows "SQLiteRepository_actualizar_presupuesto d u c m po =
           Inr (True, d\<lparr> presupuestos :=
              map (\<lambda>r. if pr_usuario_id r = u \<and> pr_categoria r = strip (lower c)
                        then r\<lparr> pr_monto := x,
                                pr_periodicidad :=
                                  (case po of None \<Rightarrow> pr_periodicidad r
                                   | Some p \<Rightarrow> if p = [] then pr_periodicidad r else p) \<rparr>
                        else r)
                (presupuestos d) \<rparr>)"
proof -
  have eq: "(pr_categoria r = c) = (pr_categoria r = strip (lower c))" for r
    using assms(1) by simp
  show ?thesis
    using assms(2,3)
    by (cases po) (auto simp: SQLiteRepository_actualizar_presupuesto_def eq)
qed

lemma eliminar_clave_normalizada:
  assumes "c = strip (lower c)" and "SQLiteRepository_presupuesto_existe d u c"
  shows "(let d' = d\<lparr> presupuestos :=
                       filter (\<lambda>r. \<not> (pr_usuario_id r = u \<and> pr_categoria r = strip (lower c)))
                         (presupuestos d),
                     movimientos :=
                       filter (\<lambda>r. \<not> (mv_usuario_id r = u \<and> mv_categoria r = strip (lower c)))
                         (movimientos d) \<rparr>
          in SQLiteRepository_eliminar_presupuesto d u c = (True, d')
             \<and> \<not> SQLiteRepository_presupuesto_existe d' u c
             \<and> MonevoFacade_obtener_historial now d' u c
                 = Inr (False, Texto (''No existe presupuesto '' @ comillas c), []))"
proof -
  have eq: "(pr_categoria r = c) = (pr_categoria r = strip (lower c))"
       "(mv_categoria r' = c) = (mv_categoria r' = strip (lower c))" for r r'
    using assms(1) by simp_all
  show ?thesis
    using assms(2)
    by (simp add: Let_def SQLiteRepository_eliminar_presupuesto_def eq facade_defs
        MovimientoService_obtener_historial_def)
       (simp add: SQLiteRepository_presupuesto_existe_def)
qed

text \<open>
  Claim C3 fails on the code. After the budget of user 42 is created with the category
  "  Moto ", it is stored under moto and exists under the spellings moto and "MOTO ".
  Updating and deleting under moto change the row. Updating under "MOTO " reports success
  and leaves the amount at 100, and deleting under "MOTO " reports success and deletes
  nothing: the existence check normalises the category, the UPDATE and DELETE statements
  compare the stored category with the argument as passed.
\<close>

theorem normalizacion_omitida:
  "(case MonevoFacade_crear_presupuesto 0 init_db ''42'' ''  Moto '' (Entero 100) ''mensual'' of
      Inl e \<Rightarrow> False
    | Inr (r, d1) \<Rightarrow>
        fst r
        \<and> map pr_categoria (presupuestos d1) = [''moto'']
        \<and> MonevoFacade_presupuesto_existe d1 ''42'' ''moto''
        \<and> MonevoFacade_presupuesto_existe d1 ''42'' ''MOTO ''
        \<and> map pr_monto (presupuestos (ejecutar d1 (Actualizar ''42'' ''moto'' (Entero 200) None)))
            = [Fin 200]
        \<and> MonevoFacade_actualizar_presupuesto d1 ''42'' ''MOTO '' (Entero 200) None =
            Inr ((True, Texto (''Presupuesto '' @ comillas ''MOTO ''
                                @ '' actualizado exitosamente'')), d1)
        \<and> presupuestos (snd (MonevoFacade_eliminar_presupuesto d1 ''42'' ''moto'')) = []
        \<and> MonevoFacade_eliminar_presupuesto d1 ''42'' ''MOTO '' =
            ((True, Texto (''Presupuesto '' @ comillas ''MOTO '' @ '' eliminado exitosamente'')), d1))"
  by code_simp

text \<open>
  Claim C4 fails on the code. In the example store the budget moto of user 42 exists under
  the spelling "MOTO ". Deleting it under that spelling returns true with the message of
  success and leaves the store as it was, budget row and movements included; the history
  asked for afterwards under the same spelling still succeeds and returns both movements.
\<close>

theorem eliminar_sin_normalizar:
  "MonevoFacade_presupuesto_existe ejemplo_db ''42'' ''MOTO ''
   \<and> MonevoFacade_eliminar_presupuesto ejemplo_db ''42'' ''MOTO '' =
       ((True, Texto (''Presupuesto '' @ comillas ''MOTO '' @ '' eliminado exitosamente'')), ejemplo_db)
   \<and> MonevoFacade_obtener_historial 3 ejemplo_db ''42'' ''MOTO '' =
     Inr (True, Texto ''Historial obtenido exitosamente'',
          [\<lparr> m_categoria = ''moto'', m_tipo = ''ingreso'', m_monto = Flotante (Fin 5000), m_usuario_id = Some ''42'',
             m_concepto = Some [], m_fecha = 2, m_id = Some 2 \<rparr>,
           \<lparr> m_categoria = ''moto'', m_tipo = ''gasto'', m_monto = Flotante (Fin 15000), m_usuario_id = Some ''42'',
             m_concepto = Some [], m_fecha = 1, m_id = Some 1 \<rparr>])"
  by code_simp

text \<open>
  Claim C9 fails on the code. In the example store the budget moto of user 42 exists under
  the spelling "MOTO ". Updating it under that spelling to the amount 200000 and the
  periodicity anual returns the message of success, not the one of a missing budget, and
  leaves the store as it was: the amount stays 100000 and the periodicity mensual.
\<close>

theorem actualizar_sin_normalizar:
  "MonevoFacade_presupuesto_existe ejemplo_db ''42'' ''MOTO ''
   \<and> MonevoFacade_actualizar_presupuesto ejemplo_db ''42'' ''MOTO '' (Entero 200000) (Some ''anual'') =
       Inr ((True, Texto (''Presupuesto '' @ comillas ''MOTO '' @ '' actualizado exitosamente'')),
            ejemplo_db)
   \<and> map pr_monto (presupuestos ejemplo_db) = [Fin 100000]
   \<and> map pr_periodicidad (presupuestos ejemplo_db) = [''mensual'']"
  by code_simp

end
